theory Spec2Isabelle
  imports Complex_Main "HOL-Library.AList"
begin

section \<open>Python values, errors and floating-point numbers\<close>

text \<open>
  A float is modelled by the real number it stands for, so the model covers the runs in
  which every float is finite: infinities and nan are outside it. The result of an
  arithmetic operation is the exact result passed through a rounding function, which is a
  parameter of every definition that computes: a theorem stated for every rounding holds
  in particular for the rounding of the machine. The reductions of NumPy (sum, mean,
  variance, norm, median) are library code and enter as the fields of a record; nothing is
  assumed about the order in which they add.
\<close>

datatype error = IndexError | KeyError | TypeError | ValueError | AttributeError
  | FileError | NotANumber | Unmodelled

datatype pyvalue = PNone | PBool bool | PInt int | PFloat real | PStr string
  | PList "pyvalue list" | PDict "(string \<times> pyvalue) list" | PArray "nat list" "real list"

type_synonym rounding = "real \<Rightarrow> real"

definition fadd :: "rounding \<Rightarrow> real \<Rightarrow> real \<Rightarrow> real" where
  "fadd r x y = r (x + y)"

definition fsub :: "rounding \<Rightarrow> real \<Rightarrow> real \<Rightarrow> real" where
  "fsub r x y = r (x - y)"

definition fmul :: "rounding \<Rightarrow> real \<Rightarrow> real \<Rightarrow> real" where
  "fmul r x y = r (x * y)"

definition fdiv :: "rounding \<Rightarrow> real \<Rightarrow> real \<Rightarrow> real" where
  "fdiv r x y = r (x / y)"

text \<open>A decimal literal of the source text denotes the float nearest to it.\<close>

definition lit :: "rounding \<Rightarrow> real \<Rightarrow> real" where
  "lit r q = r q"

record numpy =
  rnd :: rounding
  np_sum :: "real list \<Rightarrow> real"
  np_mean :: "real list \<Rightarrow> real"
  np_std :: "real list \<Rightarrow> real"
  np_var :: "real list \<Rightarrow> real"
  np_sqrt :: "real \<Rightarrow> real"
  np_norm :: "real list \<Rightarrow> real"
  np_median :: "real list \<Rightarrow> real"
  mean_axis0 :: "real list list \<Rightarrow> real list"
  var_axis0 :: "real list list \<Rightarrow> real list"
  std_axis0 :: "real list list \<Rightarrow> real list"
  norm_axis1 :: "real list list \<Rightarrow> real list"

subsection \<open>Binary64 rounding\<close>

text \<open>
  Round to nearest, ties to even, with 53 significant bits and the subnormal grid of
  spacing \<open>2 powr -1074\<close> below \<open>2 powr -1022\<close>. The machine turns a result of
  magnitude \<open>2 powr 1024\<close> or more into an infinity; this function is used below that.
\<close>

definition rne :: "real \<Rightarrow> int" where
  "rne y = (let f = \<lfloor>y\<rfloor>; r = y - of_int f
            in if r < 1/2 then f else if 1/2 < r then f + 1 else if even f then f else f + 1)"

definition b64_exponent :: "real \<Rightarrow> int" where
  "b64_exponent x = max \<lfloor>log 2 \<bar>x\<bar>\<rfloor> (-1022) - 52"

definition b64 :: rounding where
  "b64 x = (if x = 0 then 0
            else of_int (rne (x / 2 powr of_int (b64_exponent x))) * 2 powr of_int (b64_exponent x))"

subsection \<open>Loops, keys and the bounded buffer\<close>

text \<open>
  NumPy broadcasting of two one-dimensional operands: equal lengths combine elementwise, a
  length-one operand is stretched, anything else raises ValueError.
\<close>

definition broadcast2 :: "(real \<Rightarrow> real \<Rightarrow> real) \<Rightarrow> real list \<Rightarrow> real list \<Rightarrow> error + real list" where
  "broadcast2 f xs ys =
     (if length xs = length ys then Inr (map2 f xs ys)
      else if length ys = 1 then Inr (map (\<lambda>x. f x (hd ys)) xs)
      else if length xs = 1 then Inr (map (\<lambda>y. f (hd xs) y) ys)
      else Inl ValueError)"

text \<open>A loop over a list whose body may raise: the first error stops the loop, and the
  error carries the state reached so far, as the mutated object would hold it.\<close>

fun for_each :: "('a \<Rightarrow> 's \<Rightarrow> error \<times> 's + 's) \<Rightarrow> 'a list \<Rightarrow> 's \<Rightarrow> error \<times> 's + 's" where
  "for_each body [] s = Inr s"
| "for_each body (x # xs) s =
     (case body x s of Inl e \<Rightarrow> Inl e | Inr s' \<Rightarrow> for_each body xs s')"

definition dict_key :: "string \<Rightarrow> string \<Rightarrow> string" where
  "dict_key sid name = sid @ ''_'' @ name"

definition deque_append :: "nat \<Rightarrow> 'a list \<Rightarrow> 'a \<Rightarrow> 'a list" where
  "deque_append maxlen q x = drop (Suc (length q) - maxlen) (q @ [x])"

section \<open>The incremental learner\<close>

record processed_features =
  features :: "real list"
  feature_names :: "string list"
  timestamp :: real
  sensor_id :: string
  pf_context :: "(string \<times> pyvalue) list"

record experience =
  e_timestamp :: real
  e_sensor_id :: string
  e_features :: "real list"
  e_feature_names :: "string list"
  e_label :: "string option"
  e_reward :: "real option"
  e_context :: "(string \<times> pyvalue) list"

type_synonym weights = "(string \<times> real) list"
type_synonym thresholds = "(string \<times> real \<times> real) list"
type_synonym clusters = "(string \<times> real list list) list"

record learner =
  learning_rate :: real
  memory_size :: nat
  update_threshold :: int
  experience_buffer :: "experience list"
  feature_weights :: weights
  anomaly_thresholds :: thresholds
  pattern_clusters :: clusters
  update_count :: int
  total_samples :: int


text \<open>The grouping loop shared by the three update passes: a dict from sensor id to the
  list of its experiences, in order of first appearance.\<close>

definition add_to_group :: "experience \<Rightarrow> (string \<times> experience list) list
    \<Rightarrow> (string \<times> experience list) list" where
  "add_to_group ex groups =
     (case map_of groups (e_sensor_id ex) of
        None \<Rightarrow> AList.update (e_sensor_id ex) [ex] groups
      | Some exps \<Rightarrow> AList.update (e_sensor_id ex) (exps @ [ex]) groups)"

definition sensor_groups :: "experience list \<Rightarrow> (string \<times> experience list) list" where
  "sensor_groups buffer = foldl (\<lambda>groups ex. add_to_group ex groups) [] buffer"

definition mixed_lengths :: "experience list \<Rightarrow> bool" where
  "mixed_lengths experiences = (card (set (map (\<lambda>e. length (e_features e)) experiences)) > 1)"

subsection \<open>Feature weights\<close>

definition blend_weight :: "rounding \<Rightarrow> real \<Rightarrow> real \<Rightarrow> real" where
  "blend_weight r old sample = fadd r (fmul r (lit r 0.7) old) (fmul r (lit r 0.3) sample)"

definition write_weight :: "rounding \<Rightarrow> string \<Rightarrow> real list \<Rightarrow> nat \<times> string \<Rightarrow> weights
    \<Rightarrow> error \<times> weights + weights" where
  "write_weight r sid ws p fw =
     (case p of (i, name) \<Rightarrow>
        let key = dict_key sid name in
        if i < length ws then
          (case map_of fw key of
             Some old \<Rightarrow> Inr (AList.update key (blend_weight r old (ws ! i)) fw)
           | None \<Rightarrow> Inr (AList.update key (ws ! i) fw))
        else Inl (IndexError, fw))"

definition weights_group :: "numpy \<Rightarrow> string \<times> experience list \<Rightarrow> weights \<Rightarrow> error \<times> weights + weights" where
  "weights_group N g fw =
     (case g of (sid, experiences) \<Rightarrow>
        if length experiences < 2 then Inr fw
        else if mixed_lengths experiences then Inr fw
        else
          let features_matrix = map e_features experiences;
              names = e_feature_names (hd experiences);
              variances = var_axis0 N features_matrix
          in if np_sum N variances > 0
             then for_each
                    (write_weight (rnd N) sid
                       (map (\<lambda>v. fdiv (rnd N) v (np_sum N variances)) variances))
                    (enumerate 0 names) fw
             else Inr fw)"

definition weights_pass :: "numpy \<Rightarrow> experience list \<Rightarrow> weights \<Rightarrow> error \<times> weights + weights" where
  "weights_pass N buffer fw = for_each (weights_group N) (sensor_groups buffer) fw"

definition update_feature_weights :: "numpy \<Rightarrow> learner \<Rightarrow> error \<times> learner + learner" where
  "update_feature_weights N s =
     (case weights_pass N (experience_buffer s) (feature_weights s) of
        Inl (e, fw) \<Rightarrow> Inl (e, s\<lparr>feature_weights := fw\<rparr>)
      | Inr fw \<Rightarrow> Inr (s\<lparr>feature_weights := fw\<rparr>))"

subsection \<open>Anomaly thresholds\<close>

definition write_threshold :: "rounding \<Rightarrow> string \<Rightarrow> real list \<Rightarrow> real list \<Rightarrow> nat \<times> string
    \<Rightarrow> thresholds \<Rightarrow> error \<times> thresholds + thresholds" where
  "write_threshold r sid means stds p th =
     (case p of (i, name) \<Rightarrow>
        let key = dict_key sid name in
        if i < length means \<and> i < length stds then
          let lower = fsub r (means ! i) (fmul r 3 (stds ! i));
              upper = fadd r (means ! i) (fmul r 3 (stds ! i))
          in (case map_of th key of
                Some (old_lower, old_upper) \<Rightarrow>
                  Inr (AList.update key
                         (fadd r (fmul r (lit r 0.8) old_lower) (fmul r (lit r 0.2) lower),
                          fadd r (fmul r (lit r 0.8) old_upper) (fmul r (lit r 0.2) upper)) th)
              | None \<Rightarrow> Inr (AList.update key (lower, upper) th))
        else Inl (IndexError, th))"

definition thresholds_group :: "numpy \<Rightarrow> string \<times> experience list \<Rightarrow> thresholds
    \<Rightarrow> error \<times> thresholds + thresholds" where
  "thresholds_group N g th =
     (case g of (sid, experiences) \<Rightarrow>
        if length experiences < 5 then Inr th
        else if mixed_lengths experiences then Inr th
        else
          let features_matrix = map e_features experiences;
              means = mean_axis0 N features_matrix;
              stds = std_axis0 N features_matrix
          in for_each (write_threshold (rnd N) sid means stds)
               (enumerate 0 (e_feature_names (hd experiences))) th)"

definition thresholds_pass :: "numpy \<Rightarrow> experience list \<Rightarrow> thresholds \<Rightarrow> error \<times> thresholds + thresholds" where
  "thresholds_pass N buffer th = for_each (thresholds_group N) (sensor_groups buffer) th"

definition update_anomaly_thresholds :: "numpy \<Rightarrow> learner \<Rightarrow> error \<times> learner + learner" where
  "update_anomaly_thresholds N s =
     (case thresholds_pass N (experience_buffer s) (anomaly_thresholds s) of
        Inl (e, th) \<Rightarrow> Inl (e, s\<lparr>anomaly_thresholds := th\<rparr>)
      | Inr th \<Rightarrow> Inr (s\<lparr>anomaly_thresholds := th\<rparr>))"

subsection \<open>Pattern clusters\<close>

text \<open>
  \<open>np.random.choice(n, k, replace=False)\<close> is a parameter \<open>choice\<close>: for a sensor id it
  gives the \<open>k\<close> distinct row indices below \<open>n\<close> that the generator draws for that
  sensor's group (each group draws at most once in a pass).
\<close>

type_synonym chooser = "string \<Rightarrow> nat \<Rightarrow> nat \<Rightarrow> nat list"

fun recenter :: "numpy \<Rightarrow> real list list \<Rightarrow> real list list \<Rightarrow> real list list
    \<Rightarrow> error + real list list" where
  "recenter N features_matrix [] new_clusters = Inr new_clusters"
| "recenter N features_matrix (cluster_center # rest) new_clusters =
     (case those (map (\<lambda>row. case broadcast2 (fsub (rnd N)) row cluster_center of
                               Inl e \<Rightarrow> None | Inr d \<Rightarrow> Some d) features_matrix) of
        None \<Rightarrow> Inl ValueError
      | Some differences \<Rightarrow>
          let distances = norm_axis1 N differences;
              close_points = map fst (filter (\<lambda>(row, d). d < np_median N distances)
                                       (zip features_matrix distances))
          in if length close_points > 0 then
               (case broadcast2 (fadd (rnd N))
                       (map (\<lambda>c. fmul (rnd N) (lit (rnd N) 0.7) c) cluster_center)
                       (map (\<lambda>m. fmul (rnd N) (lit (rnd N) 0.3) m) (mean_axis0 N close_points)) of
                  Inl e \<Rightarrow> Inl e
                | Inr new_center \<Rightarrow> recenter N features_matrix rest (new_clusters @ [new_center]))
             else recenter N features_matrix rest (new_clusters @ [cluster_center]))"

definition clusters_group :: "numpy \<Rightarrow> chooser \<Rightarrow> nat \<Rightarrow> string \<times> experience list \<Rightarrow> clusters
    \<Rightarrow> error \<times> clusters + clusters" where
  "clusters_group N choice max_clusters g pc =
     (case g of (sid, experiences) \<Rightarrow>
        if length experiences < max_clusters then Inr pc
        else if mixed_lengths experiences then Inr pc
        else
          let features_matrix = map e_features experiences;
              pc1 = (case map_of pc sid of
                       None \<Rightarrow> AList.update sid
                                 (map (\<lambda>i. features_matrix ! i)
                                    (choice sid (length features_matrix)
                                       (min max_clusters (length features_matrix)))) pc
                     | Some cs \<Rightarrow> pc)
          in (case map_of pc1 sid of
                None \<Rightarrow> Inl (KeyError, pc1)
              | Some cs \<Rightarrow>
                  (case recenter N features_matrix cs [] of
                     Inl e \<Rightarrow> Inl (e, pc1)
                   | Inr new_clusters \<Rightarrow> Inr (AList.update sid new_clusters pc1))))"

definition clusters_pass :: "numpy \<Rightarrow> chooser \<Rightarrow> nat \<Rightarrow> experience list \<Rightarrow> clusters
    \<Rightarrow> error \<times> clusters + clusters" where
  "clusters_pass N choice max_clusters buffer pc =
     for_each (clusters_group N choice max_clusters) (sensor_groups buffer) pc"

definition update_pattern_clusters :: "numpy \<Rightarrow> chooser \<Rightarrow> learner \<Rightarrow> error \<times> learner + learner" where
  "update_pattern_clusters N choice s =
     (case clusters_pass N choice 5 (experience_buffer s) (pattern_clusters s) of
        Inl (e, pc) \<Rightarrow> Inl (e, s\<lparr>pattern_clusters := pc\<rparr>)
      | Inr pc \<Rightarrow> Inr (s\<lparr>pattern_clusters := pc\<rparr>))"

subsection \<open>The update pass and its trigger\<close>

definition incremental_update :: "numpy \<Rightarrow> chooser \<Rightarrow> learner \<Rightarrow> error \<times> learner + learner" where
  "incremental_update N choice s =
     (if length (experience_buffer s) < 2 then Inr s
      else case update_feature_weights N s of
             Inl e \<Rightarrow> Inl e
           | Inr s1 \<Rightarrow>
               (case update_anomaly_thresholds N s1 of
                  Inl e \<Rightarrow> Inl e
                | Inr s2 \<Rightarrow>
                    (case update_pattern_clusters N choice s2 of
                       Inl e \<Rightarrow> Inl e
                     | Inr s3 \<Rightarrow> Inr (s3\<lparr>update_count := update_count s3 + 1\<rparr>))))"

definition new_experience :: "real \<Rightarrow> processed_features \<Rightarrow> string option \<Rightarrow> real option
    \<Rightarrow> experience" where
  "new_experience now f label reward =
     \<lparr>e_timestamp = now, e_sensor_id = sensor_id f, e_features = features f,
      e_feature_names = feature_names f, e_label = label, e_reward = reward,
      e_context = pf_context f\<rparr>"

definition add_experience :: "numpy \<Rightarrow> chooser \<Rightarrow> real \<Rightarrow> learner \<Rightarrow> processed_features
    \<Rightarrow> string option \<Rightarrow> real option \<Rightarrow> error \<times> learner + learner" where
  "add_experience N choice now s f label reward =
     (let experience = new_experience now f label reward;
          s1 = s\<lparr>experience_buffer := deque_append (memory_size s) (experience_buffer s) experience,
                total_samples := total_samples s + 1\<rparr>
      in if int (length (experience_buffer s1)) \<ge> update_threshold s1
         then incremental_update N choice s1
         else Inr s1)"

subsection \<open>Queries\<close>

text \<open>The queries return their result together with the learner, so that what they leave
  in the object is part of the model. Indexing the feature vector past its end raises.\<close>

definition out_of_band_score :: "rounding \<Rightarrow> real \<Rightarrow> real \<Rightarrow> real \<Rightarrow> real" where
  "out_of_band_score r lower upper v =
     (if v < lower then (if lower \<noteq> 0 then fdiv r (fsub r lower v) \<bar>lower\<bar> else 1.0)
      else (if upper \<noteq> 0 then fdiv r (fsub r v upper) \<bar>upper\<bar> else 1.0))"

fun anomaly_loop :: "rounding \<Rightarrow> thresholds \<Rightarrow> string \<Rightarrow> real list \<Rightarrow> (nat \<times> string) list
    \<Rightarrow> real list \<Rightarrow> error + real list" where
  "anomaly_loop r th sid fs [] anomaly_scores = Inr anomaly_scores"
| "anomaly_loop r th sid fs ((i, name) # rest) anomaly_scores =
     (case map_of th (dict_key sid name) of
        None \<Rightarrow> anomaly_loop r th sid fs rest anomaly_scores
      | Some (lower, upper) \<Rightarrow>
          if i < length fs then
            (let v = fs ! i
             in if v < lower \<or> v > upper
                then anomaly_loop r th sid fs rest
                       (anomaly_scores @ [out_of_band_score r lower upper v])
                else anomaly_loop r th sid fs rest anomaly_scores)
          else Inl IndexError)"

definition detect_anomaly :: "numpy \<Rightarrow> learner \<Rightarrow> processed_features
    \<Rightarrow> (error + bool \<times> real) \<times> learner" where
  "detect_anomaly N s f =
     (case anomaly_loop (rnd N) (anomaly_thresholds s) (sensor_id f) (features f)
             (enumerate 0 (feature_names f)) [] of
        Inl e \<Rightarrow> (Inl e, s)
      | Inr anomaly_scores \<Rightarrow>
          if anomaly_scores \<noteq> []
          then (Inr (length anomaly_scores > 0, np_mean N anomaly_scores), s)
          else (Inr (False, 0.0), s))"

definition np_argmin :: "real list \<Rightarrow> nat" where
  "np_argmin ds = length (takeWhile (\<lambda>d. d \<noteq> Min (set ds)) ds)"

definition predict_pattern :: "numpy \<Rightarrow> learner \<Rightarrow> processed_features
    \<Rightarrow> (error + nat option) \<times> learner" where
  "predict_pattern N s f =
     (case map_of (pattern_clusters s) (sensor_id f) of
        None \<Rightarrow> (Inr None, s)
      | Some cs \<Rightarrow>
          (case those (map (\<lambda>c. case broadcast2 (fsub (rnd N)) (features f) c of
                                  Inl e \<Rightarrow> None | Inr d \<Rightarrow> Some (np_norm N d)) cs) of
             None \<Rightarrow> (Inl ValueError, s)
           | Some distances \<Rightarrow>
               if distances \<noteq> [] then (Inr (Some (np_argmin distances)), s)
               else (Inr None, s)))"

definition get_feature_importance :: "learner \<Rightarrow> string \<Rightarrow> string \<Rightarrow> real" where
  "get_feature_importance s sid name =
     (case map_of (feature_weights s) (dict_key sid name) of None \<Rightarrow> 0.0 | Some w \<Rightarrow> w)"

section \<open>Persistence of the learned parameters\<close>

text \<open>
  The parameter file is modelled by the JSON value it holds. A \<open>JObj\<close> stands for a
  Python dict: its keys are distinct and are looked up with \<open>map_of\<close>. Writing a value
  with \<open>json.dump\<close> and parsing it back with \<open>json.load\<close> gives the same value (floats
  are written with \<open>repr\<close>); this contract of the library is how the file store below
  behaves. A path whose file is missing, cannot be opened or does not parse holds no value.
\<close>

datatype json = JNull | JBool bool | JInt int | JReal real | JStr string
  | JArr "json list" | JObj "(string \<times> json) list"

record filesystem =
  contents :: "string \<Rightarrow> json option"
  writable :: "string \<Rightarrow> bool"

definition params_of :: "real \<Rightarrow> learner \<Rightarrow> json" where
  "params_of now s = JObj
     [(''feature_weights'', JObj (map (\<lambda>(k, w). (k, JReal w)) (feature_weights s))),
      (''anomaly_thresholds'',
         JObj (map (\<lambda>(k, v). (k, JArr [JReal (fst v), JReal (snd v)])) (anomaly_thresholds s))),
      (''pattern_clusters'',
         JObj (map (\<lambda>(k, v). (k, JArr (map (\<lambda>c. JArr (map JReal c)) v))) (pattern_clusters s))),
      (''metadata'', JObj [(''update_count'', JInt (update_count s)),
                           (''total_samples'', JInt (total_samples s)),
                           (''learning_rate'', JReal (learning_rate s)),
                           (''timestamp'', JReal now)])]"

text \<open>\<open>save_learned_parameters\<close> has no handler: a file that cannot be opened for writing
  raises.\<close>

definition save_learned_parameters :: "real \<Rightarrow> learner \<Rightarrow> string \<Rightarrow> filesystem
    \<Rightarrow> error + filesystem" where
  "save_learned_parameters now s filepath fs =
     (if writable fs filepath
      then Inr (fs\<lparr>contents := (contents fs)(filepath := Some (params_of now s))\<rparr>)
      else Inl FileError)"

text \<open>
  \<open>load_learned_parameters\<close> checks nothing: it stores what it finds. A value of the
  declared type is decoded; a value that Python would raise on is \<open>Raises\<close>; a value of
  another type that Python stores or converts without complaint is \<open>Untyped\<close>, and the
  typed learner cannot hold it.
\<close>

datatype 'a decoded = Typed 'a | Raises | Untyped

definition as_number :: "json \<Rightarrow> real option" where
  "as_number j = (case j of JReal x \<Rightarrow> Some x | JInt i \<Rightarrow> Some (of_int i) | _ \<Rightarrow> None)"

definition iterable :: "json \<Rightarrow> bool" where
  "iterable j = (case j of JStr s \<Rightarrow> True | JArr xs \<Rightarrow> True | JObj kv \<Rightarrow> True | _ \<Rightarrow> False)"

text \<open>The value stored under \<open>feature_weights\<close> is assigned as it is.\<close>

definition as_weights :: "json \<Rightarrow> weights option" where
  "as_weights j =
     (case j of
        JObj kv \<Rightarrow> (case those (map (\<lambda>(k, v). as_number v) kv) of
                      None \<Rightarrow> None | Some ws \<Rightarrow> Some (zip (map fst kv) ws))
      | _ \<Rightarrow> None)"

text \<open>\<open>tuple(v)\<close>: a two-element list of numbers is a band.\<close>

definition as_band :: "json \<Rightarrow> (real \<times> real) option" where
  "as_band j =
     (case j of
        JArr [a, b] \<Rightarrow> (case (as_number a, as_number b) of
                           (Some x, Some y) \<Rightarrow> Some (x, y) | _ \<Rightarrow> None)
      | _ \<Rightarrow> None)"

text \<open>\<open>np.array(c)\<close>: a list of numbers is a centroid.\<close>

definition as_centroid :: "json \<Rightarrow> real list option" where
  "as_centroid j = (case j of JArr xs \<Rightarrow> those (map as_number xs) | _ \<Rightarrow> None)"

definition as_centroids :: "json \<Rightarrow> real list list option" where
  "as_centroids j = (case j of JArr cs \<Rightarrow> those (map as_centroid cs) | _ \<Rightarrow> None)"

text \<open>
  A dict comprehension \<open>{k: conv(v) for k, v in d.items()}\<close>. An item that is not iterable
  makes the comprehension raise, whatever came before it; otherwise the new dict is built
  key by key when every item has the declared type.
\<close>

definition comprehension :: "(json \<Rightarrow> 'a option) \<Rightarrow> json \<Rightarrow> (string \<times> 'a) list decoded" where
  "comprehension conv j =
     (case j of
        JObj kv \<Rightarrow>
          if \<exists>(k, v) \<in> set kv. \<not> iterable v then Raises
          else (case those (map (\<lambda>(k, v). conv v) kv) of
                  None \<Rightarrow> Untyped
                | Some vs \<Rightarrow> Typed (foldl (\<lambda>d (k, v). AList.update k v d) [] (zip (map fst kv) vs)))
      | _ \<Rightarrow> Raises)"

definition get_item :: "json \<Rightarrow> string \<Rightarrow> json option" where
  "get_item j key = (case j of JObj kv \<Rightarrow> map_of kv key | _ \<Rightarrow> None)"

definition load_counters :: "json \<Rightarrow> learner \<Rightarrow> (error + bool) \<times> learner" where
  "load_counters metadata s =
     (case get_item metadata ''update_count'' of
        None \<Rightarrow> (Inr False, s)
      | Some (JInt uc) \<Rightarrow>
          (let s4 = s\<lparr>update_count := uc\<rparr>
           in case get_item metadata ''total_samples'' of
                None \<Rightarrow> (Inr False, s4)
              | Some (JInt ts) \<Rightarrow> (Inr True, s4\<lparr>total_samples := ts\<rparr>)
              | Some _ \<Rightarrow> (Inl Unmodelled, s4))
      | Some _ \<Rightarrow> (Inl Unmodelled, s))"

definition load_learned_parameters :: "filesystem \<Rightarrow> learner \<Rightarrow> string \<Rightarrow> (error + bool) \<times> learner" where
  "load_learned_parameters fs s filepath =
     (case contents fs filepath of
        None \<Rightarrow> (Inr False, s)
      | Some params \<Rightarrow>
          (case get_item params ''feature_weights'' of
             None \<Rightarrow> (Inr False, s)
           | Some w \<Rightarrow>
               (case as_weights w of
                  None \<Rightarrow> (Inl Unmodelled, s)
                | Some fw \<Rightarrow>
                    (let s1 = s\<lparr>feature_weights := fw\<rparr>
                     in case get_item params ''anomaly_thresholds'' of
                          None \<Rightarrow> (Inr False, s1)
                        | Some t \<Rightarrow>
                            (case comprehension as_band t of
                               Raises \<Rightarrow> (Inr False, s1)
                             | Untyped \<Rightarrow> (Inl Unmodelled, s1)
                             | Typed th \<Rightarrow>
                                 (let s2 = s1\<lparr>anomaly_thresholds := th\<rparr>
                                  in case get_item params ''pattern_clusters'' of
                                       None \<Rightarrow> (Inr False, s2)
                                     | Some c \<Rightarrow>
                                         (case comprehension as_centroids c of
                                            Raises \<Rightarrow> (Inr False, s2)
                                          | Untyped \<Rightarrow> (Inl Unmodelled, s2)
                                          | Typed pc \<Rightarrow>
                                              (let s3 = s2\<lparr>pattern_clusters := pc\<rparr>
                                               in case get_item params ''metadata'' of
                                                    None \<Rightarrow> (Inr False, s3)
                                                  | Some metadata \<Rightarrow> load_counters metadata s3))))))))"

section \<open>The sensor preprocessor\<close>

datatype sensor_type = TEMPERATURE | MOTION | CAMERA | HUMIDITY | LIGHT | PRESSURE
  | ACCELEROMETER | GPS

definition sensor_type_value :: "sensor_type \<Rightarrow> string" where
  "sensor_type_value t =
     (case t of TEMPERATURE \<Rightarrow> ''temperature'' | MOTION \<Rightarrow> ''motion'' | CAMERA \<Rightarrow> ''camera''
      | HUMIDITY \<Rightarrow> ''humidity'' | LIGHT \<Rightarrow> ''light'' | PRESSURE \<Rightarrow> ''pressure''
      | ACCELEROMETER \<Rightarrow> ''accelerometer'' | GPS \<Rightarrow> ''gps'')"

record sensor_reading =
  r_sensor_id :: string
  r_sensor_type :: sensor_type
  r_timestamp :: real
  r_value :: pyvalue
  r_unit :: string
  r_confidence :: real
  r_metadata :: "(string \<times> pyvalue) list option"

text \<open>A window holds what the processors append: a float (temperature, motion) or the
  list \<open>[x, y, z, magnitude]\<close> (accelerometer).\<close>

datatype sample = Scalar real | Row "real list"

record preprocessor =
  window_size :: int
  normalize :: bool
  feature_windows :: "(string \<times> sample list) list"

text \<open>
  What the preprocessor takes from outside the repository, besides NumPy: Python's parser
  of float literals, the image pipeline of OpenCV behind \<open>_process_camera\<close> (resize, grey
  conversion, Sobel and the means over them, yielding the six camera features or raising
  on a frame of the wrong shape), and \<open>np.sqrt(x**2 + y**2 + z**2)\<close>.
\<close>

record pyenv =
  parse_float :: "string \<Rightarrow> real option"
  camera_features :: "pyvalue \<Rightarrow> error + real list"
  magnitude :: "real \<Rightarrow> real \<Rightarrow> real \<Rightarrow> real"

text \<open>\<open>float(v)\<close>. An integer too large for a float raises OverflowError; integers of
  magnitude \<open>2 ^ 1023\<close> and more are not followed.\<close>

definition py_float :: "pyenv \<Rightarrow> rounding \<Rightarrow> pyvalue \<Rightarrow> error + real" where
  "py_float E r v =
     (case v of
        PNone \<Rightarrow> Inl TypeError
      | PBool b \<Rightarrow> Inr (if b then 1 else 0)
      | PInt i \<Rightarrow> if \<bar>i\<bar> < 2 ^ 1023 then Inr (r (of_int i)) else Inl Unmodelled
      | PFloat x \<Rightarrow> Inr x
      | PStr s \<Rightarrow> (case parse_float E s of None \<Rightarrow> Inl ValueError | Some x \<Rightarrow> Inr x)
      | PList xs \<Rightarrow> Inl TypeError
      | PDict kv \<Rightarrow> Inl TypeError
      | PArray shape xs \<Rightarrow> (case xs of [x] \<Rightarrow> Inr x | _ \<Rightarrow> Inl TypeError))"

text \<open>The truth value of an object, as \<open>if v\<close> and \<open>bool(v)\<close> take it.\<close>

definition py_truth :: "pyvalue \<Rightarrow> error + bool" where
  "py_truth v =
     (case v of
        PNone \<Rightarrow> Inr False
      | PBool b \<Rightarrow> Inr b
      | PInt i \<Rightarrow> Inr (i \<noteq> 0)
      | PFloat x \<Rightarrow> Inr (x \<noteq> 0)
      | PStr s \<Rightarrow> Inr (s \<noteq> [])
      | PList xs \<Rightarrow> Inr (xs \<noteq> [])
      | PDict kv \<Rightarrow> Inr (kv \<noteq> [])
      | PArray shape xs \<Rightarrow> (case xs of [] \<Rightarrow> Inr False | [x] \<Rightarrow> Inr (x \<noteq> 0) | _ \<Rightarrow> Inl ValueError))"

text \<open>An operand of float arithmetic: numbers and booleans; arithmetic on an array is not
  followed.\<close>

definition as_operand :: "pyvalue \<Rightarrow> error + real" where
  "as_operand v =
     (case v of
        PBool b \<Rightarrow> Inr (if b then 1 else 0)
      | PInt i \<Rightarrow> if \<bar>i\<bar> \<le> 2 ^ 53 then Inr (of_int i) else Inl Unmodelled
      | PFloat x \<Rightarrow> Inr x
      | PArray shape xs \<Rightarrow> Inl Unmodelled
      | _ \<Rightarrow> Inl TypeError)"

text \<open>\<open>np.array(list(window))\<close> of a window of floats; a window that also holds lists is
  turned into an array or rejected depending on the version of NumPy, and is not followed.\<close>

definition scalars :: "sample list \<Rightarrow> real list option" where
  "scalars w = those (map (\<lambda>x. case x of Scalar v \<Rightarrow> Some v | Row vs \<Rightarrow> None) w)"

definition rows :: "sample list \<Rightarrow> real list list option" where
  "rows w = those (map (\<lambda>x. case x of Scalar v \<Rightarrow> None | Row vs \<Rightarrow> Some vs) w)"

definition window_of :: "preprocessor \<Rightarrow> string \<Rightarrow> sample list" where
  "window_of p sid = (case map_of (feature_windows p) sid of None \<Rightarrow> [] | Some w \<Rightarrow> w)"

definition window_append :: "preprocessor \<Rightarrow> string \<Rightarrow> sample \<Rightarrow> preprocessor" where
  "window_append p sid x =
     p\<lparr>feature_windows :=
         AList.update sid (deque_append (nat (window_size p)) (window_of p sid) x) (feature_windows p)\<rparr>"

definition process_temperature :: "pyenv \<Rightarrow> numpy \<Rightarrow> preprocessor \<Rightarrow> sensor_reading
    \<Rightarrow> (error + processed_features option) \<times> preprocessor" where
  "process_temperature E N p reading =
     (case py_float E (rnd N) (r_value reading) of
        Inl e \<Rightarrow> (Inl e, p)
      | Inr v \<Rightarrow>
          (let p1 = window_append p (r_sensor_id reading) (Scalar v);
               window = window_of p1 (r_sensor_id reading)
           in case scalars window of
                None \<Rightarrow> (Inl Unmodelled, p1)
              | Some window_array \<Rightarrow>
                  (let current = (if normalize p
                                  then [fdiv (rnd N) (fsub (rnd N) v 22.0) 5.0] else [v]);
                       delta = (if length window \<ge> 2
                                then [fsub (rnd N) (last window_array) (last (butlast window_array))]
                                else []);
                       delta_names = (if length window \<ge> 2 then [''temperature_delta''] else [])
                   in if int (length window) \<ge> window_size p then
                        (if window_array = [] then (Inl ValueError, p1)
                         else (Inr (Some \<lparr>features = current @ delta @
                                            [np_mean N window_array, np_std N window_array,
                                             Min (set window_array), Max (set window_array)],
                                          feature_names = [''temperature_current''] @ delta_names @
                                            [''temperature_mean'', ''temperature_std'',
                                             ''temperature_min'', ''temperature_max''],
                                          timestamp = r_timestamp reading,
                                          sensor_id = r_sensor_id reading,
                                          pf_context = [(''raw_value'', PFloat v),
                                                        (''unit'', PStr (r_unit reading))]\<rparr>), p1))
                      else (Inr (Some \<lparr>features = current @ delta,
                                       feature_names = [''temperature_current''] @ delta_names,
                                       timestamp = r_timestamp reading,
                                       sensor_id = r_sensor_id reading,
                                       pf_context = [(''raw_value'', PFloat v),
                                                     (''unit'', PStr (r_unit reading))]\<rparr>), p1))))"

definition time_since_motion :: "rounding \<Rightarrow> sensor_reading \<Rightarrow> error + real" where
  "time_since_motion r reading =
     (case r_metadata reading of
        None \<Rightarrow> Inl AttributeError
      | Some md \<Rightarrow>
          (case map_of md ''last_motion'' of
             None \<Rightarrow> Inr (fsub r (r_timestamp reading) (r_timestamp reading))
           | Some lm \<Rightarrow>
               (case as_operand lm of
                  Inl e \<Rightarrow> Inl e
                | Inr t \<Rightarrow> Inr (fsub r (r_timestamp reading) t))))"

definition process_motion :: "numpy \<Rightarrow> preprocessor \<Rightarrow> sensor_reading
    \<Rightarrow> (error + processed_features option) \<times> preprocessor" where
  "process_motion N p reading =
     (case py_truth (r_value reading) of
        Inl e \<Rightarrow> (Inl e, p)
      | Inr b \<Rightarrow>
          (let motion_detected = (if b then 1.0 else 0.0);
               p1 = window_append p (r_sensor_id reading) (Scalar motion_detected);
               window = window_of p1 (r_sensor_id reading);
               ctx = [(''motion_detected'', PBool b)]
           in case scalars window of
                None \<Rightarrow> (Inl Unmodelled, p1)
              | Some window_array \<Rightarrow>
                  if int (length window) \<ge> window_size p then
                    (if window_array = [] then (Inl NotANumber, p1)
                     else
                       (case (if b then Inr 0.0 else time_since_motion (rnd N) reading) of
                          Inl e \<Rightarrow> (Inl e, p1)
                        | Inr time_since \<Rightarrow>
                            (Inr (Some \<lparr>features =
                                           [motion_detected,
                                            fdiv (rnd N) (np_sum N window_array)
                                              (real (length window_array)),
                                            min (fdiv (rnd N) time_since 60.0) 10.0],
                                         feature_names = [''motion_current'', ''motion_frequency'',
                                                          ''time_since_motion''],
                                         timestamp = r_timestamp reading,
                                         sensor_id = r_sensor_id reading,
                                         pf_context = ctx\<rparr>), p1)))
                  else (Inr (Some \<lparr>features = [motion_detected],
                                   feature_names = [''motion_current''],
                                   timestamp = r_timestamp reading,
                                   sensor_id = r_sensor_id reading,
                                   pf_context = ctx\<rparr>), p1)))"

definition metadata_get :: "sensor_reading \<Rightarrow> string \<Rightarrow> pyvalue \<Rightarrow> error + pyvalue" where
  "metadata_get reading key dflt =
     (case r_metadata reading of
        None \<Rightarrow> Inl AttributeError
      | Some md \<Rightarrow> (case map_of md key of None \<Rightarrow> Inr dflt | Some v \<Rightarrow> Inr v))"

definition process_camera :: "pyenv \<Rightarrow> preprocessor \<Rightarrow> sensor_reading
    \<Rightarrow> (error + processed_features option) \<times> preprocessor" where
  "process_camera E p reading =
     (case r_value reading of
        PArray shape xs \<Rightarrow>
          (case camera_features E (r_value reading) of
             Inl e \<Rightarrow> (Inl e, p)
           | Inr fs \<Rightarrow>
               (case metadata_get reading ''resolution'' PNone of
                  Inl e \<Rightarrow> (Inl e, p)
                | Inr res \<Rightarrow>
                    (case metadata_get reading ''objects_detected'' (PInt 0) of
                       Inl e \<Rightarrow> (Inl e, p)
                     | Inr objs \<Rightarrow>
                         (Inr (Some \<lparr>features = fs,
                                      feature_names = [''brightness_r'', ''brightness_g'',
                                                       ''brightness_b'', ''brightness_overall'',
                                                       ''contrast'', ''edge_density''],
                                      timestamp = r_timestamp reading,
                                      sensor_id = r_sensor_id reading,
                                      pf_context = [(''resolution'', res),
                                                    (''frame_shape'', PList (map (\<lambda>n. PInt (int n)) shape)),
                                                    (''objects_detected'', objs)]\<rparr>), p))))
      | _ \<Rightarrow> (Inr None, p))"

definition axis_of :: "(string \<times> pyvalue) list \<Rightarrow> string \<Rightarrow> error + real" where
  "axis_of accel_data key =
     (case map_of accel_data key of None \<Rightarrow> Inr 0 | Some v \<Rightarrow> as_operand v)"

definition differences :: "rounding \<Rightarrow> real list list \<Rightarrow> real list list" where
  "differences r m = map (\<lambda>(a, b). map2 (\<lambda>x y. fsub r y x) a b) (zip m (tl m))"

definition process_accelerometer :: "pyenv \<Rightarrow> numpy \<Rightarrow> preprocessor \<Rightarrow> sensor_reading
    \<Rightarrow> (error + processed_features option) \<times> preprocessor" where
  "process_accelerometer E N p reading =
     (case r_value reading of
        PDict accel_data \<Rightarrow>
          (case axis_of accel_data ''x'' of
             Inl e \<Rightarrow> (Inl e, p)
           | Inr x \<Rightarrow>
          (case axis_of accel_data ''y'' of
             Inl e \<Rightarrow> (Inl e, p)
           | Inr y \<Rightarrow>
          (case axis_of accel_data ''z'' of
             Inl e \<Rightarrow> (Inl e, p)
           | Inr z \<Rightarrow>
               (let m = magnitude E x y z;
                    p1 = window_append p (r_sensor_id reading) (Row [x, y, z, m]);
                    window = window_of p1 (r_sensor_id reading);
                    base = \<lparr>features = [x, y, z, m],
                            feature_names = [''accel_x'', ''accel_y'', ''accel_z'', ''accel_magnitude''],
                            timestamp = r_timestamp reading,
                            sensor_id = r_sensor_id reading,
                            pf_context = [(''raw_accel'', r_value reading)]\<rparr>
                in if length window \<ge> 3 then
                     (case rows window of
                        None \<Rightarrow> (Inl Unmodelled, p1)
                      | Some window_array \<Rightarrow>
                          (Inr (Some (base\<lparr>
                             features := [x, y, z, m] @
                               [np_mean N (norm_axis1 N
                                  (differences (rnd N) (map (take 3) window_array)))] @
                               map (\<lambda>i. np_var N (map (\<lambda>row. row ! i) window_array)) [0, 1, 2],
                             feature_names := [''accel_x'', ''accel_y'', ''accel_z'', ''accel_magnitude'',
                                               ''jerk_magnitude'', ''accel_x_variance'',
                                               ''accel_y_variance'', ''accel_z_variance'']\<rparr>)), p1))
                   else (Inr (Some base), p1)))))
      | _ \<Rightarrow> (Inr None, p))"

definition process_generic :: "pyenv \<Rightarrow> rounding \<Rightarrow> preprocessor \<Rightarrow> sensor_reading
    \<Rightarrow> (error + processed_features option) \<times> preprocessor" where
  "process_generic E r p reading =
     (let numeric = (case r_value reading of
                       PBool b \<Rightarrow> True | PInt i \<Rightarrow> True | PFloat x \<Rightarrow> True | _ \<Rightarrow> False)
      in if numeric then
           (case py_float E r (r_value reading) of
              Inl e \<Rightarrow> (Inl e, p)
            | Inr v \<Rightarrow>
                (Inr (Some \<lparr>features = [v],
                             feature_names = [sensor_type_value (r_sensor_type reading) @ ''_value''],
                             timestamp = r_timestamp reading,
                             sensor_id = r_sensor_id reading,
                             pf_context = [(''raw_value'', r_value reading)]\<rparr>), p))
         else (Inr (Some \<lparr>features = [0.0],
                          feature_names = [''unknown''],
                          timestamp = r_timestamp reading,
                          sensor_id = r_sensor_id reading,
                          pf_context = [(''raw_value'', r_value reading)]\<rparr>), p))"

text \<open>\<open>deque(maxlen=window_size)\<close> raises ValueError for a negative size.\<close>

definition process_reading :: "pyenv \<Rightarrow> numpy \<Rightarrow> preprocessor \<Rightarrow> sensor_reading
    \<Rightarrow> (error + processed_features option) \<times> preprocessor" where
  "process_reading E N p reading =
     (if map_of (feature_windows p) (r_sensor_id reading) = None \<and> window_size p < 0
      then (Inl ValueError, p)
      else
        let p0 = (if map_of (feature_windows p) (r_sensor_id reading) = None
                  then p\<lparr>feature_windows := AList.update (r_sensor_id reading) [] (feature_windows p)\<rparr>
                  else p)
        in case r_sensor_type reading of
             TEMPERATURE \<Rightarrow> process_temperature E N p0 reading
           | MOTION \<Rightarrow> process_motion N p0 reading
           | CAMERA \<Rightarrow> process_camera E p0 reading
           | ACCELEROMETER \<Rightarrow> process_accelerometer E N p0 reading
           | _ \<Rightarrow> process_generic E (rnd N) p0 reading)"

text \<open>\<open>[self.process_reading(r) for r in readings if self.process_reading(r)]\<close>: the
  condition is one call, the element a second one.\<close>

fun batch_loop :: "pyenv \<Rightarrow> numpy \<Rightarrow> preprocessor \<Rightarrow> sensor_reading list
    \<Rightarrow> processed_features option list \<Rightarrow> (error + processed_features option list) \<times> preprocessor" where
  "batch_loop E N p [] acc = (Inr acc, p)"
| "batch_loop E N p (x # xs) acc =
     (case process_reading E N p x of
        (Inl e, p1) \<Rightarrow> (Inl e, p1)
      | (Inr None, p1) \<Rightarrow> batch_loop E N p1 xs acc
      | (Inr (Some c), p1) \<Rightarrow>
          (case process_reading E N p1 x of
             (Inl e, p2) \<Rightarrow> (Inl e, p2)
           | (Inr res, p2) \<Rightarrow> batch_loop E N p2 xs (acc @ [res])))"

definition process_batch :: "pyenv \<Rightarrow> numpy \<Rightarrow> preprocessor \<Rightarrow> sensor_reading list
    \<Rightarrow> (error + processed_features option list) \<times> preprocessor" where
  "process_batch E N p readings = batch_loop E N p readings []"

text \<open>Batch processing as the specification words it: the single-reading operation applied
  once to each item in order, keeping the non-empty results.\<close>

fun each_once :: "pyenv \<Rightarrow> numpy \<Rightarrow> preprocessor \<Rightarrow> sensor_reading list
    \<Rightarrow> processed_features option list \<Rightarrow> (error + processed_features option list) \<times> preprocessor" where
  "each_once E N p [] acc = (Inr acc, p)"
| "each_once E N p (x # xs) acc =
     (case process_reading E N p x of
        (Inl e, p1) \<Rightarrow> (Inl e, p1)
      | (Inr None, p1) \<Rightarrow> each_once E N p1 xs acc
      | (Inr (Some c), p1) \<Rightarrow> each_once E N p1 xs (acc @ [Some c]))"

section \<open>The specification's wording, and data to run the model on\<close>

subsection \<open>The anomaly score as the specification words it\<close>









subsection \<open>Discarding the minority lengths, as the specification words it\<close>

text \<open>The majority length of a group is the feature-vector length that most of its
  experiences have (the first such length when several tie); discarding keeps, in every
  sensor's group, the experiences of the majority length.\<close>

definition majority_length :: "nat list \<Rightarrow> nat" where
  "majority_length ls = hd (filter (\<lambda>l. \<forall>l' \<in> set ls. count_list ls l' \<le> count_list ls l) ls)"

definition discard_minority :: "experience list \<Rightarrow> experience list" where
  "discard_minority buffer =
     filter (\<lambda>e. length (e_features e) =
                   majority_length (map (\<lambda>x. length (e_features x))
                     (filter (\<lambda>x. e_sensor_id x = e_sensor_id e) buffer))) buffer"

subsection \<open>Learners, records and files to run the model on\<close>



definition demo_experience :: "string \<Rightarrow> real list \<Rightarrow> string list \<Rightarrow> experience" where
  "demo_experience sid fs names = \<lparr>e_timestamp = 0, e_sensor_id = sid, e_features = fs,
     e_feature_names = names, e_label = None, e_reward = None, e_context = []\<rparr>"

subsection \<open>Crossing the threshold, as the specification words it\<close>


text \<open>A sequence of calls stops at the first one that raises.\<close>

fun add_all :: "numpy \<Rightarrow> chooser \<Rightarrow> real \<Rightarrow> learner \<Rightarrow> processed_features list
    \<Rightarrow> error \<times> learner + learner" where
  "add_all N choice now s [] = Inr s"
| "add_all N choice now s (f # fs) =
     (case add_experience N choice now s f None None of
        Inl e \<Rightarrow> Inl e
      | Inr s1 \<Rightarrow> add_all N choice now s1 fs)"



text \<open>A buffer of one sensor with five feature vectors of length one and one of length two.\<close>

definition uneven_buffer :: "experience list" where
  "uneven_buffer = replicate 5 (demo_experience ''s'' [1] [''f'']) @
                   [demo_experience ''s'' [1, 2] [''f'', ''g'']]"

text \<open>A disk without files on which every path can be written, a disk holding one file, and a
  parameter record that stops after the feature weights.\<close>

definition empty_disk :: filesystem where
  "empty_disk = \<lparr>contents = (\<lambda>p. None), writable = (\<lambda>p. True)\<rparr>"

definition disk_with :: "string \<Rightarrow> json \<Rightarrow> filesystem" where
  "disk_with filepath j = empty_disk\<lparr>contents := (contents empty_disk)(filepath := Some j)\<rparr>"

definition truncated_record :: json where
  "truncated_record = JObj [(''feature_weights'', JObj [(''s_f'', JReal (3/4))])]"

text \<open>The keys that \<open>load_learned_parameters\<close> reads.\<close>

definition has_required_keys :: "json \<Rightarrow> bool" where
  "has_required_keys params =
     (get_item params ''feature_weights'' \<noteq> None \<and>
      get_item params ''anomaly_thresholds'' \<noteq> None \<and>
      get_item params ''pattern_clusters'' \<noteq> None \<and>
      (case get_item params ''metadata'' of
         None \<Rightarrow> False
       | Some metadata \<Rightarrow> get_item metadata ''update_count'' \<noteq> None \<and>
                          get_item metadata ''total_samples'' \<noteq> None))"

section \<open>Properties\<close>

subsection \<open>Binary64 rounding: evaluation and error\<close>

lemma rne_eqI: "\<bar>y - of_int m\<bar> < 1/2 \<Longrightarrow> rne y = m"
proof -
  assume a: "\<bar>y - of_int m\<bar> < 1/2"
  show ?thesis
  proof (cases "of_int m \<le> y")
    case True
    with a have "\<lfloor>y\<rfloor> = m" by (intro floor_unique) (auto simp: abs_if split: if_splits)
    with a True show ?thesis by (auto simp: rne_def Let_def abs_if split: if_splits)
  next
    case False
    with a have "\<lfloor>y\<rfloor> = m - 1" by (intro floor_unique) (auto simp: abs_if split: if_splits)
    with a False show ?thesis by (auto simp: rne_def Let_def abs_if split: if_splits)
  qed
qed

lemma rne_error: "\<bar>of_int (rne y) - y\<bar> \<le> 1/2"
proof -
  define f where "f = \<lfloor>y\<rfloor>"
  have "of_int f \<le> y" "y < of_int f + 1" unfolding f_def by linarith+
  then have "\<bar>of_int (if y - of_int f < 1/2 then f else if 1/2 < y - of_int f then f + 1
                          else if even f then f else f + 1) - y\<bar> \<le> 1/2"
    by (simp add: abs_if)
  then show ?thesis by (simp add: rne_def Let_def f_def)
qed

lemma floor_log2:
  assumes "2 powr of_int E \<le> \<bar>x\<bar>" and "\<bar>x\<bar> < 2 powr of_int (E + 1)"
  shows "\<lfloor>log 2 \<bar>x\<bar>\<rfloor> = E"
proof -
  have pos: "0 < \<bar>x\<bar>" using assms(1) by (smt (verit) powr_gt_zero)
  have "of_int E \<le> log 2 \<bar>x\<bar>" using assms(1) pos by (simp add: le_log_iff)
  moreover have "log 2 \<bar>x\<bar> < of_int (E + 1)" using assms(2) pos by (simp add: log_less_iff)
  ultimately show ?thesis by (intro floor_unique) auto
qed

lemma b64_eval:
  fixes k :: nat
  assumes lo: "2 ^ 52 \<le> \<bar>x\<bar> * 2 ^ k" and hi: "\<bar>x\<bar> * 2 ^ k < 2 ^ 53" and k: "k \<le> 1074"
    and m: "\<bar>x * 2 ^ k - of_int m\<bar> < 1/2"
  shows "b64 x = of_int m / 2 ^ k"
proof -
  have x0: "x \<noteq> 0" using lo by auto
  define E where "E = 52 - int k"
  define K where "K = - int k"
  have p: "2 powr of_int E = 2 ^ 52 / (2 ^ k :: real)"
    unfolding E_def by (simp add: powr_diff powr_realpow)
  have p1: "2 powr of_int (E + 1) = 2 ^ 53 / (2 ^ k :: real)"
    unfolding E_def by (simp add: powr_diff powr_realpow powr_add)
  have "2 powr of_int E \<le> \<bar>x\<bar>" unfolding p using lo by (simp add: field_simps)
  moreover have "\<bar>x\<bar> < 2 powr of_int (E + 1)" unfolding p1 using hi by (simp add: field_simps)
  ultimately have "\<lfloor>log 2 \<bar>x\<bar>\<rfloor> = E" by (rule floor_log2)
  with k have e: "b64_exponent x = K" by (simp add: b64_exponent_def E_def K_def)
  have q: "2 powr of_int K = 1 / (2 ^ k :: real)"
    unfolding K_def by (simp add: powr_minus powr_realpow inverse_eq_divide)
  have "rne (x / 2 powr of_int (b64_exponent x)) = m"
    unfolding e q using m by (intro rne_eqI) simp
  then show ?thesis using x0 unfolding b64_def e q by simp
qed

lemma b64_error: "\<bar>b64 x - x\<bar> \<le> max \<bar>x\<bar> (2 powr (-1022)) / 2 ^ 53"
proof (cases "x = 0")
  case True
  then show ?thesis by (simp add: b64_def)
next
  case False
  define e where "e = b64_exponent x"
  define g :: real where "g = 2 powr of_int e"
  have g: "0 < g" by (simp add: g_def)
  have "b64 x - x = (of_int (rne (x / g)) - x / g) * g"
    using False g by (simp add: b64_def e_def g_def field_simps)
  then have "\<bar>b64 x - x\<bar> = \<bar>of_int (rne (x / g)) - x / g\<bar> * g"
    using g by (simp add: abs_mult)
  also have "\<dots> \<le> 1/2 * g" using rne_error [of "x / g"] g by (intro mult_right_mono) auto
  finally have 1: "\<bar>b64 x - x\<bar> \<le> g / 2" by simp
  have "2 powr of_int \<lfloor>log 2 \<bar>x\<bar>\<rfloor> \<le> 2 powr (log 2 \<bar>x\<bar>)"
    by (intro powr_mono) auto
  also have "\<dots> = \<bar>x\<bar>" using False by simp
  finally have fl: "2 powr of_int \<lfloor>log 2 \<bar>x\<bar>\<rfloor> \<le> \<bar>x\<bar>" .
  define L where "L = \<lfloor>log 2 \<bar>x\<bar>\<rfloor>"
  have "2 powr of_int (max L (-1022)) \<le> max \<bar>x\<bar> (2 powr (-1022))"
  proof (cases "-1022 \<le> L")
    case True
    then have "max L (-1022) = L" by simp
    with fl show ?thesis by (simp add: L_def le_max_iff_disj)
  next
    case False
    then have "max L (-1022) = -1022" by simp
    then show ?thesis by (simp add: le_max_iff_disj)
  qed
  moreover have "g = 2 powr of_int (max L (-1022)) / 2 ^ 52"
  proof -
    have "of_int (max L (-1022) - 52) = (of_int (max L (-1022)) :: real) - 52" by simp
    then have "(2::real) powr of_int (max L (-1022) - 52)
                 = 2 powr of_int (max L (-1022)) / 2 powr 52"
      by (simp only: powr_diff)
    then show ?thesis by (simp add: g_def e_def b64_exponent_def L_def)
  qed
  ultimately have "g \<le> max \<bar>x\<bar> (2 powr (-1022)) / 2 ^ 52"
    by (simp add: divide_right_mono)
  with 1 show ?thesis by simp
qed

lemma b64_seven_tenths: "b64 (7/10) = 3152519739159347 / 2 ^ 52"
proof -
  have "b64 (7/10) = of_int 6305039478318694 / 2 ^ 53"
    by (rule b64_eval) simp_all
  then show ?thesis by simp
qed

lemma b64_three_tenths: "b64 (3/10) = 5404319552844595 / 2 ^ 54"
proof -
  have "b64 (3/10) = of_int 5404319552844595 / 2 ^ 54"
    by (rule b64_eval) simp_all
  then show ?thesis by simp
qed

lemma b64_one_fifth: "b64 (1/5) = 7205759403792794 / 2 ^ 55"
proof -
  have "b64 (1/5) = of_int 7205759403792794 / 2 ^ 55"
    by (rule b64_eval) simp_all
  then show ?thesis by simp
qed

lemma blend_at_one_fifth:
  "blend_weight b64 (b64 (1/5)) (b64 (1/5)) = 7205759403792793 / 2 ^ 55"
proof -
  have a: "b64 (3152519739159347 / 2 ^ 52 * (7205759403792794 / 2 ^ 55)) = 5044031582654955 / 2 ^ 55"
  proof -
    have "b64 (3152519739159347 / 2 ^ 52 * (7205759403792794 / 2 ^ 55)) = of_int 5044031582654955 / 2 ^ 55"
      by (rule b64_eval) simp_all
    then show ?thesis by simp
  qed
  have b: "b64 (5404319552844595 / 2 ^ 54 * (7205759403792794 / 2 ^ 55)) = 8646911284551352 / 2 ^ 57"
  proof -
    have "b64 (5404319552844595 / 2 ^ 54 * (7205759403792794 / 2 ^ 55)) = of_int 8646911284551352 / 2 ^ 57"
      by (rule b64_eval) simp_all
    then show ?thesis by simp
  qed
  have s: "b64 (5044031582654955 / 2 ^ 55 + 8646911284551352 / 2 ^ 57) = 7205759403792793 / 2 ^ 55"
  proof -
    have "b64 (5044031582654955 / 2 ^ 55 + 8646911284551352 / 2 ^ 57) = of_int 7205759403792793 / 2 ^ 55"
      by (rule b64_eval) simp_all
    then show ?thesis by simp
  qed
  show ?thesis
    unfolding blend_weight_def fadd_def fmul_def lit_def
    by (simp only: b64_seven_tenths b64_three_tenths b64_one_fifth a b s)
qed


lemma b64_scaled_error:
  assumes c: "\<bar>c\<bar> \<le> 1" and cq: "\<bar>c - q\<bar> \<le> 1 / 2 ^ 54"
    and M: "\<bar>x\<bar> \<le> M" and T: "2 powr (-1022) \<le> M"
  shows "\<bar>b64 (c * x) - q * x\<bar> \<le> 3 / 2 * M / 2 ^ 53"
proof -
  have M0: "0 \<le> M" using M by linarith
  have "\<bar>c * x\<bar> \<le> 1 * M"
    unfolding abs_mult using c M by (intro mult_mono) auto
  then have "max \<bar>c * x\<bar> (2 powr (-1022)) \<le> M" using T by simp
  then have 1: "\<bar>b64 (c * x) - c * x\<bar> \<le> M / 2 ^ 53"
    using b64_error [of "c * x"] by (smt (verit) divide_right_mono zero_le_numeral zero_le_power)
  have "c * x - q * x = (c - q) * x" by (simp add: algebra_simps)
  then have "\<bar>c * x - q * x\<bar> = \<bar>c - q\<bar> * \<bar>x\<bar>" by (simp only: abs_mult)
  also have "\<dots> \<le> 1 / 2 ^ 54 * M" using cq M by (intro mult_mono) auto
  finally have 2: "\<bar>c * x - q * x\<bar> \<le> M / 2 ^ 54" by simp
  have "\<bar>b64 (c * x) - q * x\<bar> \<le> \<bar>b64 (c * x) - c * x\<bar> + \<bar>c * x - q * x\<bar>" by linarith
  with 1 2 show ?thesis by simp
qed

lemma blend_error:
  fixes old sample :: real
  defines "M \<equiv> max (max \<bar>old\<bar> \<bar>sample\<bar>) (2 powr (-1022))"
  shows "\<bar>blend_weight b64 old sample - (0.7 * old + 0.3 * sample)\<bar> \<le> 6 * M / 2 ^ 53"
proof -
  have T: "2 powr (-1022) \<le> M" and o: "\<bar>old\<bar> \<le> M" and sm: "\<bar>sample\<bar> \<le> M"
    by (simp_all add: M_def)
  have M0: "0 < M" using T by (smt (verit) powr_gt_zero)
  define a where "a = b64 (b64 (7/10) * old)"
  define b where "b = b64 (b64 (3/10) * sample)"
  have a: "\<bar>a - 7/10 * old\<bar> \<le> 3 / 2 * M / 2 ^ 53"
    unfolding a_def by (rule b64_scaled_error [OF _ _ o T]) (simp_all add: b64_seven_tenths)
  have b: "\<bar>b - 3/10 * sample\<bar> \<le> 3 / 2 * M / 2 ^ 53"
    unfolding b_def by (rule b64_scaled_error [OF _ _ sm T]) (simp_all add: b64_three_tenths)
  have B: "\<bar>7/10 * old + 3/10 * sample\<bar> \<le> M" using o sm by (simp add: abs_if split: if_splits)
  have ab: "\<bar>a + b - (7/10 * old + 3/10 * sample)\<bar> \<le> 3 * M / 2 ^ 53" using a b by linarith
  have small: "3 * M / 2 ^ 53 \<le> M" using M0 by simp
  have "\<bar>a + b\<bar> \<le> 2 * M" using ab B small by linarith
  then have "max \<bar>a + b\<bar> (2 powr (-1022)) \<le> 2 * M" using T M0 by simp
  then have s: "\<bar>b64 (a + b) - (a + b)\<bar> \<le> 2 * M / 2 ^ 53"
    using b64_error [of "a + b"] by (smt (verit) divide_right_mono zero_le_numeral zero_le_power)
  have "\<bar>b64 (a + b) - (7/10 * old + 3/10 * sample)\<bar> \<le> 5 * M / 2 ^ 53" using s ab by linarith
  moreover have "5 * M / 2 ^ 53 \<le> 6 * M / 2 ^ 53" using M0 by simp
  moreover have "blend_weight b64 old sample = b64 (a + b)"
    by (simp add: blend_weight_def fadd_def fmul_def lit_def a_def b_def)
  ultimately show ?thesis by simp
qed

subsection \<open>The blend of a weight\<close>

lemma exact_blend_between:
  "min old sample \<le> 0.7 * old + 0.3 * (sample::real) \<and> 0.7 * old + 0.3 * sample \<le> max old sample"
  by (cases "old \<le> sample") (simp_all add: min_def max_def)

text \<open>
  Claim C9, as stated, fails on the code: the weight that an update stores is the blend
  evaluated in binary64, and for the previous weight 0.2 and the sample 0.2 that value is
  one unit in the last place below 0.2, so below both.
\<close>

theorem rounded_blend_below_both:
  "b64 (1/5) = 7205759403792794 / 2 ^ 55 \<and>
   write_weight b64 ''s'' [b64 (1/5), b64 (4/5)] (0, ''f'')
       [(''s_f'', b64 (1/5)), (''s_g'', b64 (4/5))]
     = Inr [(''s_f'', 7205759403792793 / 2 ^ 55), (''s_g'', b64 (4/5))] \<and>
   (7205759403792793 / 2 ^ 55 :: real) < min (b64 (1/5)) (b64 (1/5))"
  by (simp add: write_weight_def dict_key_def blend_at_one_fifth) (simp add: b64_one_fifth)

text \<open>
  Claim C9, amended. For all reals the exact blend \<open>0.7 * old + 0.3 * sample\<close> lies between
  \<open>old\<close> and \<open>sample\<close>. A weight update stores the sample itself for a new key and, for a
  key that has a weight, the blend evaluated in floating point; in binary64, for weights
  below \<open>2 ^ 1023\<close> in magnitude, that value differs from the exact blend by at most
  \<open>6 * max \<bar>old\<bar> \<bar>sample\<bar> / 2 ^ 53\<close> (with \<open>2 powr -1022\<close> in place of a smaller maximum),
  so it lies between the previous weight and the sample up to that rounding error.
\<close>

theorem weight_update_rounded:
  "min old sample \<le> 0.7 * old + 0.3 * (sample::real) \<and>
   0.7 * old + 0.3 * sample \<le> max old sample \<and>
   (i < length ws \<longrightarrow>
      (\<exists>fw'. write_weight r sid ws (i, name) fw = Inr fw' \<and>
         map_of fw' (dict_key sid name) =
           (case map_of fw (dict_key sid name) of
              None \<Rightarrow> Some (ws ! i)
            | Some w \<Rightarrow> Some (blend_weight r w (ws ! i))))) \<and>
   (\<bar>old\<bar> < 2 ^ 1023 \<and> \<bar>sample\<bar> < 2 ^ 1023 \<longrightarrow>
      \<bar>blend_weight b64 old sample - (0.7 * old + 0.3 * sample)\<bar>
        \<le> 6 * max (max \<bar>old\<bar> \<bar>sample\<bar>) (2 powr (-1022)) / 2 ^ 53 \<and>
      min old sample - 6 * max (max \<bar>old\<bar> \<bar>sample\<bar>) (2 powr (-1022)) / 2 ^ 53
        \<le> blend_weight b64 old sample \<and>
      blend_weight b64 old sample
        \<le> max old sample + 6 * max (max \<bar>old\<bar> \<bar>sample\<bar>) (2 powr (-1022)) / 2 ^ 53)"
proof -
  have e: "min old sample \<le> 0.7 * old + 0.3 * sample \<and> 0.7 * old + 0.3 * sample \<le> max old sample"
    by (rule exact_blend_between)
  have w: "i < length ws \<longrightarrow>
      (\<exists>fw'. write_weight r sid ws (i, name) fw = Inr fw' \<and>
         map_of fw' (dict_key sid name) =
           (case map_of fw (dict_key sid name) of
              None \<Rightarrow> Some (ws ! i)
            | Some w \<Rightarrow> Some (blend_weight r w (ws ! i))))"
    by (auto simp: write_weight_def Let_def update_conv' split: option.splits)
  have b: "\<bar>blend_weight b64 old sample - (0.7 * old + 0.3 * sample)\<bar>
        \<le> 6 * max (max \<bar>old\<bar> \<bar>sample\<bar>) (2 powr (-1022)) / 2 ^ 53"
    by (rule blend_error)
  from e b have
    "min old sample - 6 * max (max \<bar>old\<bar> \<bar>sample\<bar>) (2 powr (-1022)) / 2 ^ 53
        \<le> blend_weight b64 old sample"
    "blend_weight b64 old sample
        \<le> max old sample + 6 * max (max \<bar>old\<bar> \<bar>sample\<bar>) (2 powr (-1022)) / 2 ^ 53"
    by linarith+
  with e w b show ?thesis by blast
qed

theorem weight_update_rounded_witness:
  "(0::nat) < length [b64 (1/5)] \<and> \<bar>b64 (1/5)\<bar> < 2 ^ 1023 \<and>
   write_weight b64 ''s'' [b64 (1/5)] (0, ''f'') [(''s_f'', b64 (1/5))]
     = Inr [(''s_f'', blend_weight b64 (b64 (1/5)) (b64 (1/5)))] \<and>
   b64 (1/5) - 6 * max (max \<bar>b64 (1/5)\<bar> \<bar>b64 (1/5)\<bar>) (2 powr (-1022)) / 2 ^ 53
     \<le> blend_weight b64 (b64 (1/5)) (b64 (1/5)) \<and>
   blend_weight b64 (b64 (1/5)) (b64 (1/5))
     \<le> b64 (1/5) + 6 * max (max \<bar>b64 (1/5)\<bar> \<bar>b64 (1/5)\<bar>) (2 powr (-1022)) / 2 ^ 53"
proof -
  have small: "\<bar>b64 (1/5)\<bar> < 2 ^ 1023" by (simp add: b64_one_fifth)
  have w: "write_weight b64 ''s'' [b64 (1/5)] (0, ''f'') [(''s_f'', b64 (1/5))]
     = Inr [(''s_f'', blend_weight b64 (b64 (1/5)) (b64 (1/5)))]"
    by (simp add: write_weight_def dict_key_def)
  show ?thesis
    using weight_update_rounded [of "b64 (1/5)" "b64 (1/5)" 0 "[b64 (1/5)]" b64 "''s''" "''f''"
        "[(''s_f'', b64 (1/5))]"] small w
    by simp
qed

subsection \<open>Queries leave the learner as it is\<close>

text \<open>
  Claim C10. \<open>detect_anomaly\<close> and \<open>predict_pattern\<close> are pure queries: whatever they
  return, also when they raise, the learner they hand back (buffer, weights, thresholds,
  clusters, counters) is the one they were called on.
\<close>

theorem queries_are_pure:
  "snd (detect_anomaly N s f) = s \<and> snd (predict_pattern N s f) = s"
  by (simp add: detect_anomaly_def predict_pattern_def split: sum.splits option.splits)

subsection \<open>What the anomaly query returns\<close>













subsection \<open>Grouping by sensor and loops that may raise\<close>

lemma sensor_groups_snoc: "sensor_groups (buf @ [e]) = add_to_group e (sensor_groups buf)"
  by (simp add: sensor_groups_def)

lemma map_of_sensor_groups:
  "map_of (sensor_groups buf) k =
     (if k \<in> e_sensor_id ` set buf then Some (filter (\<lambda>e. e_sensor_id e = k) buf) else None)"
proof (induction buf rule: rev_induct)
  case Nil
  then show ?case by (simp add: sensor_groups_def)
next
  case (snoc e buf)
  have none: "e_sensor_id e \<notin> e_sensor_id ` set buf \<Longrightarrow>
      filter (\<lambda>x. e_sensor_id x = e_sensor_id e) buf = []"
  proof -
    assume a: "e_sensor_id e \<notin> e_sensor_id ` set buf"
    have "\<forall>x \<in> set buf. \<not> (e_sensor_id x = e_sensor_id e)"
    proof
      fix x assume "x \<in> set buf"
      then have "e_sensor_id x \<in> e_sensor_id ` set buf" by (rule imageI)
      with a show "\<not> (e_sensor_id x = e_sensor_id e)" by metis
    qed
    then show ?thesis by (rule filter_False)
  qed
  from snoc show ?case
    by (auto simp: sensor_groups_snoc add_to_group_def update_conv' none split: option.splits)
qed

lemma distinct_sensor_groups: "distinct (map fst (sensor_groups buf))"
proof (induction buf rule: rev_induct)
  case Nil
  then show ?case by (simp add: sensor_groups_def)
next
  case (snoc e buf)
  then show ?case
    by (simp add: sensor_groups_snoc add_to_group_def distinct_update split: option.splits)
qed

lemma sensor_groups_member:
  "(k, g) \<in> set (sensor_groups buf) \<longleftrightarrow>
     k \<in> e_sensor_id ` set buf \<and> g = filter (\<lambda>e. e_sensor_id e = k) buf"
  using map_of_eq_Some_iff [OF distinct_sensor_groups, of buf k g]
  by (simp add: map_of_sensor_groups split: if_splits) blast

lemma distinct_groups_list: "distinct (sensor_groups buf)"
  using distinct_sensor_groups distinct_map by blast

lemma filter_update_other:
  "filter (\<lambda>p. fst p \<noteq> k) (AList.update k v al) = filter (\<lambda>p. fst p \<noteq> k) al"
  by (induction al) auto

lemma filter_update_keep:
  "k' \<noteq> k \<Longrightarrow> filter (\<lambda>p. fst p \<noteq> k) (AList.update k' v al)
     = AList.update k' v (filter (\<lambda>p. fst p \<noteq> k) al)"
  by (induction al) auto

lemma map_of_filter_other:
  "k' \<noteq> k \<Longrightarrow> map_of (filter (\<lambda>p. fst p \<noteq> k) al) k' = map_of al k'"
  by (induction al) auto

lemma sensor_groups_without:
  "sensor_groups (filter (\<lambda>e. e_sensor_id e \<noteq> k) buf)
     = filter (\<lambda>p. fst p \<noteq> k) (sensor_groups buf)"
proof (induction buf rule: rev_induct)
  case Nil
  then show ?case by (simp add: sensor_groups_def)
next
  case (snoc e buf)
  show ?case
  proof (cases "e_sensor_id e = k")
    case True
    then show ?thesis
      using snoc by (simp add: sensor_groups_snoc add_to_group_def filter_update_other split: option.splits)
  next
    case False
    then show ?thesis
      using snoc
      by (simp add: sensor_groups_snoc add_to_group_def filter_update_keep map_of_filter_other
          split: option.splits)
  qed
qed

lemma for_each_skip:
  "(\<And>x t. x \<in> set xs \<Longrightarrow> \<not> P x \<Longrightarrow> body x t = Inr t) \<Longrightarrow>
   for_each body xs s = for_each body (filter P xs) s"
proof (induction xs arbitrary: s)
  case Nil
  then show ?case by simp
next
  case (Cons x xs)
  then show ?case by (cases "P x") (auto split: sum.splits)
qed

lemma for_each_preserves:
  "for_each body xs s = Inr s' \<Longrightarrow>
   (\<And>x t t'. x \<in> set xs \<Longrightarrow> body x t = Inr t' \<Longrightarrow> P t' = P t) \<Longrightarrow> P s' = P s"
proof (induction xs arbitrary: s)
  case Nil
  then show ?case by simp
next
  case (Cons x xs)
  then show ?case by (fastforce split: sum.splits)
qed

lemma for_each_one_writer:
  "for_each body xs s = Inr s' \<Longrightarrow> x \<in> set xs \<Longrightarrow> distinct xs \<Longrightarrow>
   (\<And>y t t'. y \<in> set xs \<Longrightarrow> y \<noteq> x \<Longrightarrow> body y t = Inr t' \<Longrightarrow> P t' = P t) \<Longrightarrow>
   (\<And>t t'. body x t = Inr t' \<Longrightarrow> P t = a \<Longrightarrow> P t' = b) \<Longrightarrow>
   P s = a \<Longrightarrow> P s' = b"
proof (induction xs arbitrary: s)
  case Nil
  then show ?case by simp
next
  case (Cons y ys)
  from Cons.prems(1) obtain s1 where s1: "body y s = Inr s1" and rest: "for_each body ys s1 = Inr s'"
    by (auto split: sum.splits)
  show ?case
  proof (cases "y = x")
    case True
    with s1 Cons.prems(5,6) have "P s1 = b" by blast
    moreover have "P s' = P s1"
    proof (rule for_each_preserves [OF rest])
      fix z t t' assume "z \<in> set ys" "body z t = Inr t'"
      with True Cons.prems(3) show "P t' = P t"
        using Cons.prems(4) [of z t t'] by auto
    qed
    ultimately show ?thesis by simp
  next
    case False
    with s1 Cons.prems(4) [of y s s1] Cons.prems(6) have "P s1 = a" by simp
    moreover from False Cons.prems(2) have "x \<in> set ys" by simp
    moreover from Cons.prems(3) have "distinct ys" by simp
    ultimately show ?thesis
      using Cons.IH [OF rest] Cons.prems(4,5) by (metis list.set_intros(2))
  qed
qed

subsection \<open>When an update pass runs\<close>










lemma demo_experience_simps [simp]:
  "e_sensor_id (demo_experience sid fs names) = sid"
  "e_features (demo_experience sid fs names) = fs"
  "e_feature_names (demo_experience sid fs names) = names"
  by (simp_all add: demo_experience_def)










subsection \<open>Groups of mixed vector lengths\<close>

lemma mixed_group_skipped:
  assumes "mixed_lengths (filter (\<lambda>e. e_sensor_id e = k) buffer)"
    and "\<And>t. body (k, filter (\<lambda>e. e_sensor_id e = k) buffer) t = Inr t"
  shows "for_each body (sensor_groups buffer) t
           = for_each body (sensor_groups (filter (\<lambda>e. e_sensor_id e \<noteq> k) buffer)) t"
proof -
  have "for_each body (sensor_groups buffer) t
          = for_each body (filter (\<lambda>p. fst p \<noteq> k) (sensor_groups buffer)) t"
  proof (rule for_each_skip)
    fix x u
    assume x: "x \<in> set (sensor_groups buffer)" and k: "\<not> fst x \<noteq> k"
    obtain a g where ag: "x = (a, g)" by (cases x)
    with x k have "x = (k, filter (\<lambda>e. e_sensor_id e = k) buffer)"
      by (simp add: sensor_groups_member)
    with assms(2) show "body x u = Inr u" by simp
  qed
  then show ?thesis by (simp add: sensor_groups_without)
qed

text \<open>
  Claim C4, amended. In every update pass, a sensor's group whose feature vectors are not all
  of one length is left out as a whole: the weights, thresholds and clusters that the pass
  computes are those it computes from the buffer without that sensor's experiences, and the
  group never makes the pass raise. No experience of such a group enters a statistic, the
  ones of the majority length included.
\<close>

theorem mixed_group_left_out:
  "mixed_lengths (filter (\<lambda>e. e_sensor_id e = k) buffer) \<longrightarrow>
     weights_pass N buffer fw = weights_pass N (filter (\<lambda>e. e_sensor_id e \<noteq> k) buffer) fw \<and>
     thresholds_pass N buffer th = thresholds_pass N (filter (\<lambda>e. e_sensor_id e \<noteq> k) buffer) th \<and>
     clusters_pass N choice max_clusters buffer pc
       = clusters_pass N choice max_clusters (filter (\<lambda>e. e_sensor_id e \<noteq> k) buffer) pc"
proof
  assume m: "mixed_lengths (filter (\<lambda>e. e_sensor_id e = k) buffer)"
  have w: "weights_group N (k, filter (\<lambda>e. e_sensor_id e = k) buffer) t = Inr t" for t
    using m by (simp add: weights_group_def)
  have t: "thresholds_group N (k, filter (\<lambda>e. e_sensor_id e = k) buffer) t = Inr t" for t
    using m by (simp add: thresholds_group_def)
  have c: "clusters_group N choice max_clusters (k, filter (\<lambda>e. e_sensor_id e = k) buffer) t = Inr t"
    for t using m by (simp add: clusters_group_def)
  show "weights_pass N buffer fw = weights_pass N (filter (\<lambda>e. e_sensor_id e \<noteq> k) buffer) fw \<and>
     thresholds_pass N buffer th = thresholds_pass N (filter (\<lambda>e. e_sensor_id e \<noteq> k) buffer) th \<and>
     clusters_pass N choice max_clusters buffer pc
       = clusters_pass N choice max_clusters (filter (\<lambda>e. e_sensor_id e \<noteq> k) buffer) pc"
    unfolding weights_pass_def thresholds_pass_def clusters_pass_def
    using mixed_group_skipped [OF m, of "weights_group N", OF w]
      mixed_group_skipped [OF m, of "thresholds_group N", OF t]
      mixed_group_skipped [OF m, of "clusters_group N choice max_clusters", OF c]
    by simp
qed

lemma uneven_mixed: "mixed_lengths (filter (\<lambda>e. e_sensor_id e = ''s'') uneven_buffer)"
  by (simp add: mixed_lengths_def uneven_buffer_def)

lemma uneven_without: "filter (\<lambda>e. e_sensor_id e \<noteq> ''s'') uneven_buffer = []"
  by (simp add: uneven_buffer_def)

lemma uneven_majority:
  "discard_minority uneven_buffer = replicate 5 (demo_experience ''s'' [1] [''f''])"
  by (simp add: discard_minority_def uneven_buffer_def majority_length_def numeral_eq_Suc)

lemma groups_five:
  "sensor_groups (replicate 5 (demo_experience ''s'' [1] [''f'']))
     = [(''s'', replicate 5 (demo_experience ''s'' [1] [''f'']))]"
  by (simp add: sensor_groups_def add_to_group_def numeral_eq_Suc)

lemma five_thresholds:
  "thresholds_pass N (replicate 5 (demo_experience ''s'' [1] [''f''])) [] \<noteq> Inr []"
  by (simp add: thresholds_pass_def groups_five thresholds_group_def mixed_lengths_def
      write_threshold_def Let_def)

lemma empty_buffer_passes:
  "weights_pass N [] fw = Inr fw" "thresholds_pass N [] th = Inr th"
  "clusters_pass N choice k [] pc = Inr pc"
  by (simp_all add: weights_pass_def thresholds_pass_def clusters_pass_def sensor_groups_def)

lemma uneven_thresholds: "thresholds_pass N uneven_buffer th = Inr th"
proof -
  have "thresholds_group N (''s'', filter (\<lambda>e. e_sensor_id e = ''s'') uneven_buffer) t = Inr t" for t
    using uneven_mixed by (simp add: thresholds_group_def)
  then show ?thesis
    unfolding thresholds_pass_def
    using mixed_group_skipped [OF uneven_mixed, of "thresholds_group N"]
    by (simp add: uneven_without sensor_groups_def)
qed

text \<open>
  Claim C4, as stated, fails on the code. Five experiences of a sensor have a feature vector
  of length one and a sixth has one of length two. Discarding the minority would leave the
  five, from which a pass learns a threshold for the feature (or raises); the code learns
  nothing from the group.
\<close>

theorem majority_not_kept:
  "\<forall>N :: numpy.
     discard_minority uneven_buffer = replicate 5 (demo_experience ''s'' [1] [''f'']) \<and>
     thresholds_pass N uneven_buffer [] = Inr [] \<and>
     thresholds_pass N (discard_minority uneven_buffer) [] \<noteq> Inr []"
  by (simp add: uneven_majority uneven_thresholds five_thresholds)

theorem mixed_group_left_out_witness:
  "\<forall>(N :: numpy) choice.
     mixed_lengths (filter (\<lambda>e. e_sensor_id e = ''s'') uneven_buffer) \<and>
     weights_pass N uneven_buffer [] = Inr [] \<and>
     thresholds_pass N uneven_buffer [] = Inr [] \<and>
     clusters_pass N choice 5 uneven_buffer [] = Inr []"
proof (intro allI)
  fix N :: numpy and choice :: chooser
  show "mixed_lengths (filter (\<lambda>e. e_sensor_id e = ''s'') uneven_buffer) \<and>
     weights_pass N uneven_buffer [] = Inr [] \<and>
     thresholds_pass N uneven_buffer [] = Inr [] \<and>
     clusters_pass N choice 5 uneven_buffer [] = Inr []"
    using mixed_group_left_out [of "''s''" uneven_buffer N "[]" "[]" choice 5 "[]"] uneven_mixed
    by (simp add: uneven_without empty_buffer_passes)
qed


end
